theory Spec2Isabelle
  imports Complex_Main
begin

section \<open>The page the four scripts run against\<close>

text \<open>
  The four scripts (theme toggle, weather chip, news cards, cursor effect) are event
  handlers over one shared document. A handler is modelled as a function from the page
  before the event to the page after it. Everything a handler can touch is a field of
  \<open>page\<close>:
  \<^item> \<open>data_theme\<close> is \<open>document.documentElement.dataset.theme\<close>: \<open>None\<close> is
    JavaScript's \<open>undefined\<close> (no \<open>data-theme\<close> attribute);
  \<^item> \<open>cookie_assigned\<close> lists the strings assigned to \<open>document.cookie\<close>, oldest first;
  \<^item> \<open>elements\<close> is \<open>document.getElementById\<close>: \<open>None\<close> is \<open>null\<close>;
  \<^item> \<open>news_cards\<close> are the elements \<open>querySelectorAll(".news-card")\<close> returns, in
    document order;
  \<^item> \<open>window_opened\<close> lists the calls \<open>window.open(url, target)\<close>, oldest first;
  \<^item> \<open>console_errors\<close> lists the calls \<open>console.error(label, err)\<close>, oldest first.
\<close>

datatype js_error = TypeError string | SyntaxError string | DOMException string

record element =
  text_content :: string
  style_left :: string
  style_top :: string

record card =
  data_url :: "string option"

record page =
  data_theme :: "string option"
  cookie_assigned :: "string list"
  elements :: "string \<rightharpoonup> element"
  news_cards :: "card list"
  window_opened :: "(string \<times> string) list"
  console_errors :: "(string \<times> js_error) list"

text \<open>
  Truthiness of a value that is a string or \<open>undefined\<close>: \<open>undefined\<close> and the empty
  string are falsy, every other string is truthy. \<open>a || b\<close> is \<open>a\<close> when \<open>a\<close> is truthy
  and \<open>b\<close> otherwise.
\<close>

definition truthy :: "string option \<Rightarrow> bool" where
  "truthy v = (case v of None \<Rightarrow> False | Some s \<Rightarrow> s \<noteq> [])"

definition or_else :: "string option \<Rightarrow> string \<Rightarrow> string" where
  "or_else v d = (case v of None \<Rightarrow> d | Some s \<Rightarrow> if truthy v then s else d)"

section \<open>ThemeToggle\<close>

text \<open>
  The click listener of the toggle control:
  \<^verbatim>\<open>
    const current = document.documentElement.dataset.theme || "dark";
    const next = current === "dark" ? "light" : "dark";
    document.documentElement.dataset.theme = next;
    document.cookie = `theme=${next};path=/;max-age=31536000;Secure;SameSite=Lax`;
  \<close>
\<close>

definition current_theme :: "page \<Rightarrow> string" where
  "current_theme p = or_else (data_theme p) ''dark''"

definition next_theme :: "page \<Rightarrow> string" where
  "next_theme p = (if current_theme p = ''dark'' then ''light'' else ''dark'')"

definition theme_cookie :: "string \<Rightarrow> string" where
  "theme_cookie v = ''theme='' @ v @ '';path=/;max-age=31536000;Secure;SameSite=Lax''"

definition toggle_click :: "page \<Rightarrow> page" where
  "toggle_click p =
     (let nxt = next_theme p in
      p\<lparr>data_theme := Some nxt,
        cookie_assigned := cookie_assigned p @ [theme_cookie nxt]\<rparr>)"

text \<open>
  The script registers the listener only when the control exists
  (\<open>if (!toggle) return;\<close>): a click reaches the listener on a page that has the
  element \<open>theme-toggle\<close>, and does nothing otherwise.
\<close>

definition toggle_dispatch :: "page \<Rightarrow> page" where
  "toggle_dispatch p =
     (case elements p ''theme-toggle'' of None \<Rightarrow> p | Some t \<Rightarrow> toggle_click p)"

text \<open>
  The two values of the data model's ThemePreference, with the strings that stand for
  them in the attribute and in the cookie.
\<close>

datatype theme_preference = Dark | Light

fun theme_name :: "theme_preference \<Rightarrow> string" where
  "theme_name Dark = ''dark''"
| "theme_name Light = ''light''"

text \<open>
  How a cookie string reads: it is split at every semicolon into the name-value pair
  and the attributes; the value of the pair is what follows its first \<open>=\<close>.
\<close>

fun cookie_parts :: "string \<Rightarrow> string list" where
  "cookie_parts [] = [[]]"
| "cookie_parts (c # cs) =
     (if c = CHR '';'' then [] # cookie_parts cs
      else (case cookie_parts cs of [] \<Rightarrow> [[c]] | w # ws \<Rightarrow> (c # w) # ws))"

definition cookie_name :: "string \<Rightarrow> string" where
  "cookie_name s = takeWhile (\<lambda>c. c \<noteq> CHR ''='') (hd (cookie_parts s))"

definition cookie_value :: "string \<Rightarrow> string" where
  "cookie_value s = drop 1 (dropWhile (\<lambda>c. c \<noteq> CHR ''='') (hd (cookie_parts s)))"

section \<open>WeatherChip\<close>

text \<open>
  What \<open>JSON.parse\<close> can produce. An object is the list of its own properties (the
  parser has resolved repeated keys, so a key is looked up with \<open>map_of\<close>). The type
  \<open>'n\<close> of numbers is left open: the script does nothing with a number but render it,
  and the rendering (ECMAScript's Number::toString) is the parameter \<open>ns\<close> below.
\<close>

datatype 'n json =
    JNull
  | JBool bool
  | JNum 'n
  | JStr string
  | JArr "'n json list"
  | JObj "(string \<times> 'n json) list"

text \<open>How a promise settles.\<close>

datatype 'a settled = Rejected js_error | Resolved 'a

text \<open>
  A response: its status, and how the promise of \<open>resp.json()\<close> settles.
  \<open>resp.ok\<close> is true exactly for a status from 200 to 299.
\<close>

record 'n response =
  status :: nat
  json_result :: "'n json settled"

definition response_ok :: "'n response \<Rightarrow> bool" where
  "response_ok r = (200 \<le> status r \<and> status r \<le> 299)"

text \<open>
  \<open>data.title\<close>: reading a property of \<open>null\<close> throws a TypeError; an object gives its
  own property, and \<open>undefined\<close> (\<open>None\<close>) when it has none, as do a boolean, a number,
  a string and an array, none of which has a property \<open>title\<close>.
\<close>

definition get_title :: "'n json \<Rightarrow> js_error + 'n json option" where
  "get_title data =
     (case data of
        JNull \<Rightarrow> Inl (TypeError ''Cannot read properties of null'')
      | JObj kvs \<Rightarrow> Inr (map_of kvs ''title'')
      | _ \<Rightarrow> Inr None)"

text \<open>
  The string a template literal \<open>`${v}`\<close> makes of a value. An array is joined with
  commas, \<open>null\<close> elements rendering empty. An object renders as \<open>[object Object]\<close>
  through \<open>Object.prototype.toString\<close>, unless it has an own property \<open>toString\<close>:
  that is parsed data, so not callable, \<open>valueOf\<close> returns no primitive either, and the
  conversion throws a TypeError.
\<close>

fun comma_join :: "string list \<Rightarrow> string" where
  "comma_join [] = []"
| "comma_join [s] = s"
| "comma_join (s # t # ss) = s @ '','' @ comma_join (t # ss)"

fun to_string :: "('n \<Rightarrow> string) \<Rightarrow> 'n json \<Rightarrow> js_error + string"
  and join_strings :: "('n \<Rightarrow> string) \<Rightarrow> 'n json list \<Rightarrow> js_error + string list"
where
  "to_string ns JNull = Inr ''null''"
| "to_string ns (JBool b) = Inr (if b then ''true'' else ''false'')"
| "to_string ns (JNum n) = Inr (ns n)"
| "to_string ns (JStr s) = Inr s"
| "to_string ns (JArr xs) =
     (case join_strings ns xs of Inl err \<Rightarrow> Inl err | Inr ss \<Rightarrow> Inr (comma_join ss))"
| "to_string ns (JObj kvs) =
     (case map_of kvs ''toString'' of
        None \<Rightarrow> Inr ''[object Object]''
      | Some m \<Rightarrow> Inl (TypeError ''Cannot convert object to primitive value''))"
| "join_strings ns [] = Inr []"
| "join_strings ns (x # xs) =
     (case (case x of JNull \<Rightarrow> Inr [] | _ \<Rightarrow> to_string ns x) of
        Inl err \<Rightarrow> Inl err
      | Inr s \<Rightarrow>
          (case join_strings ns xs of Inl err \<Rightarrow> Inl err | Inr ss \<Rightarrow> Inr (s # ss)))"

definition template_string :: "('n \<Rightarrow> string) \<Rightarrow> 'n json option \<Rightarrow> js_error + string" where
  "template_string ns v = (case v of None \<Rightarrow> Inr ''undefined'' | Some j \<Rightarrow> to_string ns j)"

text \<open>
  The body of the \<open>try\<close> block, \<open>Inl\<close> when it throws:
  \<^verbatim>\<open>
    const resp = await fetch("/api/weather");
    if (!resp.ok) return;
    const data = await resp.json();
    const el = document.getElementById("weather-chip");
    if (el) el.textContent = `${data.title}`;
  \<close>
  \<open>fetch url\<close> is how the promise of \<open>fetch(url)\<close> settles. The block reads and
  writes the page only after its last \<open>await\<close>, so \<open>p\<close> is the page at that moment. The
  template literal is evaluated only when the element exists.
\<close>

definition weather_try ::
  "('n \<Rightarrow> string) \<Rightarrow> (string \<Rightarrow> 'n response settled) \<Rightarrow> page \<Rightarrow> js_error + page" where
  "weather_try ns fetch p =
     (case fetch ''/api/weather'' of
        Rejected err \<Rightarrow> Inl err
      | Resolved resp \<Rightarrow>
          if \<not> response_ok resp then Inr p
          else
            (case json_result resp of
               Rejected err \<Rightarrow> Inl err
             | Resolved data \<Rightarrow>
                 (case elements p ''weather-chip'' of
                    None \<Rightarrow> Inr p
                  | Some el \<Rightarrow>
                      (case get_title data of
                         Inl err \<Rightarrow> Inl err
                       | Inr title \<Rightarrow>
                           (case template_string ns title of
                              Inl err \<Rightarrow> Inl err
                            | Inr s \<Rightarrow>
                                Inr (p\<lparr>elements := (elements p)(''weather-chip'' \<mapsto>
                                       el\<lparr>text_content := s\<rparr>)\<rparr>))))))"

text \<open>
  \<open>loadWeather\<close> with its \<open>catch\<close>, which logs and returns:
  \<^verbatim>\<open>
    } catch (err) {
      console.error("Weather fetch failed:", err);
    }
  \<close>
  The result is how the promise of the async function settles: \<open>Inl\<close> would be an
  exception reaching the caller, \<open>Inr\<close> is the page it leaves.
\<close>

definition loadWeather ::
  "('n \<Rightarrow> string) \<Rightarrow> (string \<Rightarrow> 'n response settled) \<Rightarrow> page \<Rightarrow> js_error + page" where
  "loadWeather ns fetch p =
     (case weather_try ns fetch p of
        Inr p' \<Rightarrow> Inr p'
      | Inl err \<Rightarrow>
          Inr (p\<lparr>console_errors := console_errors p @ [(''Weather fetch failed:'', err)]\<rparr>))"

text \<open>
  The failures of a fetch: the request is rejected (network), the status is outside
  200 to 299, or the body does not parse.
\<close>

definition fetch_failed :: "'n response settled \<Rightarrow> bool" where
  "fetch_failed fetched =
     (case fetched of
        Rejected err \<Rightarrow> True
      | Resolved resp \<Rightarrow>
          (if response_ok resp
           then (case json_result resp of Rejected err \<Rightarrow> True | Resolved data \<Rightarrow> False)
           else True))"

text \<open>Whether parsed data is an object with a property \<open>title\<close>.\<close>

definition has_title_field :: "'n json \<Rightarrow> bool" where
  "has_title_field data =
     (case data of JObj kvs \<Rightarrow> (case map_of kvs ''title'' of None \<Rightarrow> False | Some t \<Rightarrow> True)
      | _ \<Rightarrow> False)"

text \<open>The text of the weather chip, when the element exists.\<close>

definition chip_text :: "page \<Rightarrow> string option" where
  "chip_text p = map_option text_content (elements p ''weather-chip'')"

section \<open>NewsCardNavigator\<close>

text \<open>
  On \<open>DOMContentLoaded\<close> every card gets the same click listener, closed over its card:
  \<^verbatim>\<open>
    const link = card.dataset.url;
    if (link) window.open(link, "_blank");
  \<close>
  \<open>card_click i\<close> is a click on the \<open>i\<close>-th card; a position with no card has no
  listener.
\<close>

definition card_listener :: "card \<Rightarrow> page \<Rightarrow> page" where
  "card_listener c p =
     (case data_url c of
        None \<Rightarrow> p
      | Some link \<Rightarrow>
          if truthy (Some link)
          then p\<lparr>window_opened := window_opened p @ [(link, ''_blank'')]\<rparr>
          else p)"

definition card_click :: "nat \<Rightarrow> page \<Rightarrow> page" where
  "card_click i p =
     (if i < length (news_cards p) then card_listener (news_cards p ! i) p else p)"

section \<open>CursorEffect\<close>

text \<open>
  \<^verbatim>\<open>
    const circle = document.getElementById("cursor-effect");
    if (circle) {
      circle.style.left = `${e.pageX}px`;
      circle.style.top = `${e.pageY}px`;
    }
  \<close>
  The page coordinates of a mouse event are finite doubles. Every finite double is a
  rational number, so a coordinate is a \<open>rat\<close>: whole and fractional coordinates are
  both values of the type.
\<close>

record mouse_event =
  pageX :: rat
  pageY :: rat

text \<open>
  The string a template literal makes of a number (ECMAScript's Number::toString). For a
  whole number of magnitude up to \<open>2^53\<close> it is the decimal numeral, with a minus sign
  when negative: \<open>int_str\<close>. For every other number (a fraction, a larger magnitude) the
  digits depend on the binary representation, and the rendering is the parameter \<open>ns\<close>,
  as for the numbers of a JSON body. Either way the result followed by \<open>px\<close> is a CSS
  length, so the style setter stores the string it is given.
\<close>

definition digit_char :: "nat \<Rightarrow> char" where
  "digit_char d = ''0123456789'' ! (d mod 10)"

fun nat_str :: "nat \<Rightarrow> string" where
  "nat_str n = (if n < 10 then [digit_char n] else nat_str (n div 10) @ [digit_char n])"

definition int_str :: "int \<Rightarrow> string" where
  "int_str i = (if i < 0 then CHR ''-'' # nat_str (nat (- i)) else nat_str (nat i))"

definition safe_integer :: "rat \<Rightarrow> bool" where
  "safe_integer x = (of_int \<lfloor>x\<rfloor> = x \<and> \<bar>\<lfloor>x\<rfloor>\<bar> \<le> 2 ^ 53)"

definition number_str :: "(rat \<Rightarrow> string) \<Rightarrow> rat \<Rightarrow> string" where
  "number_str ns x = (if safe_integer x then int_str \<lfloor>x\<rfloor> else ns x)"

definition cursor_mousemove :: "(rat \<Rightarrow> string) \<Rightarrow> mouse_event \<Rightarrow> page \<Rightarrow> page" where
  "cursor_mousemove ns e p =
     (case elements p ''cursor-effect'' of
        None \<Rightarrow> p
      | Some circle \<Rightarrow>
          p\<lparr>elements := (elements p)(''cursor-effect'' \<mapsto>
               circle\<lparr>style_left := number_str ns (pageX e) @ ''px'',
                      style_top := number_str ns (pageY e) @ ''px''\<rparr>)\<rparr>)"

text \<open>
  Reading an offset back, written independently of \<open>int_str\<close>. \<open>read_decimal\<close> accepts
  the decimal numerals only: digits, no leading zero unless the numeral is \<open>0\<close>, an
  optional minus sign before a numeral other than \<open>0\<close>. \<open>read_px\<close> reads a whole number
  of pixels: such a numeral followed by \<open>px\<close>.
\<close>

definition digit_value :: "char \<Rightarrow> nat option" where
  "digit_value c =
     (let k = (of_char c :: nat) in if 48 \<le> k \<and> k \<le> 57 then Some (k - 48) else None)"

fun digits_value :: "nat \<Rightarrow> string \<Rightarrow> nat option" where
  "digits_value acc [] = Some acc"
| "digits_value acc (c # cs) =
     (case digit_value c of None \<Rightarrow> None | Some d \<Rightarrow> digits_value (10 * acc + d) cs)"

definition read_nat :: "string \<Rightarrow> nat option" where
  "read_nat s =
     (case s of
        [] \<Rightarrow> None
      | c # cs \<Rightarrow> if c = CHR ''0'' \<and> cs \<noteq> [] then None else digits_value 0 s)"

definition read_decimal :: "string \<Rightarrow> int option" where
  "read_decimal s =
     (case s of
        [] \<Rightarrow> None
      | c # cs \<Rightarrow>
          if c = CHR ''-''
          then (case read_nat cs of
                  None \<Rightarrow> None
                | Some n \<Rightarrow> if n = 0 then None else Some (- int n))
          else map_option int (read_nat s))"

definition read_px :: "string \<Rightarrow> int option" where
  "read_px s =
     (if 2 \<le> length s \<and> drop (length s - 2) s = ''px''
      then read_decimal (take (length s - 2) s) else None)"

text \<open>What the cursor element shows: its offsets, when the element exists.\<close>

definition cursor_left :: "page \<Rightarrow> string option" where
  "cursor_left p = map_option style_left (elements p ''cursor-effect'')"

definition cursor_top :: "page \<Rightarrow> string option" where
  "cursor_top p = map_option style_top (elements p ''cursor-effect'')"

section \<open>Pages to run the handlers on\<close>

definition blank_page :: page where
  "blank_page =
     \<lparr>data_theme = None, cookie_assigned = [], elements = Map.empty, news_cards = [],
      window_opened = [], console_errors = []\<rparr>"

definition blank_element :: element where
  "blank_element = \<lparr>text_content = ''--'', style_left = [], style_top = []\<rparr>"

definition chip_page :: page where
  "chip_page = blank_page\<lparr>elements := [''weather-chip'' \<mapsto> blank_element]\<rparr>"

text \<open>
  A network that answers the request for \<open>/api/weather\<close> as given and rejects every
  other request.
\<close>

definition serve :: "'n response settled \<Rightarrow> string \<Rightarrow> 'n response settled" where
  "serve answer url =
     (if url = ''/api/weather'' then answer else Rejected (TypeError ''Failed to fetch''))"

definition cursor_page :: page where
  "cursor_page = blank_page\<lparr>elements := [''cursor-effect'' \<mapsto> blank_element]\<rparr>"

declare nat_str.simps [simp del]

section \<open>ThemeToggle: what a click writes\<close>

lemma next_theme_cases: "next_theme p = ''dark'' \<or> next_theme p = ''light''"
  by (simp add: next_theme_def)

lemma next_theme_eq:
  "next_theme p =
     (if data_theme p = None \<or> data_theme p = Some [] \<or> data_theme p = Some ''dark''
      then ''light'' else ''dark'')"
  by (cases "data_theme p") (auto simp: next_theme_def current_theme_def or_else_def truthy_def)

lemma data_theme_toggle_click: "data_theme (toggle_click p) = Some (next_theme p)"
  by (simp add: toggle_click_def Let_def)

lemma cookie_assigned_toggle_click:
  "cookie_assigned (toggle_click p) = cookie_assigned p @ [theme_cookie (next_theme p)]"
  by (simp add: toggle_click_def Let_def)

lemma current_theme_toggle_click: "current_theme (toggle_click p) = next_theme p"
  using next_theme_cases [of p]
  by (auto simp: data_theme_toggle_click current_theme_def or_else_def truthy_def)

text \<open>
  The listener changes the attribute and the cookie and nothing else of the page.
\<close>

lemma toggle_click_frame:
  "(toggle_click p)\<lparr>data_theme := data_theme p, cookie_assigned := cookie_assigned p\<rparr> = p"
  by (simp add: toggle_click_def Let_def)

text \<open>Without the control there is no listener, and a click changes nothing.\<close>

lemma toggle_dispatch_absent: "elements p ''theme-toggle'' = None \<Longrightarrow> toggle_dispatch p = p"
  by (simp add: toggle_dispatch_def)

lemma toggle_dispatch_present:
  "elements p ''theme-toggle'' = Some t \<Longrightarrow> toggle_dispatch p = toggle_click p"
  by (simp add: toggle_dispatch_def)

text \<open>
  From an unset attribute two clicks leave the attribute \<open>dark\<close>: the preference the
  listener reads is the same as before, the attribute is now set.
\<close>

lemma toggle_twice_unset:
  "data_theme p = None \<Longrightarrow>
   data_theme (toggle_click (toggle_click p)) = Some ''dark'' \<and>
   current_theme (toggle_click (toggle_click p)) = current_theme p"
  by (simp add: current_theme_toggle_click data_theme_toggle_click next_theme_def)
     (simp add: current_theme_def or_else_def)

lemma cookie_parts_dark:
  "cookie_parts (theme_cookie ''dark'') =
     [''theme=dark'', ''path=/'', ''max-age=31536000'', ''Secure'', ''SameSite=Lax'']"
  by (simp add: theme_cookie_def)

lemma cookie_parts_light:
  "cookie_parts (theme_cookie ''light'') =
     [''theme=light'', ''path=/'', ''max-age=31536000'', ''Secure'', ''SameSite=Lax'']"
  by (simp add: theme_cookie_def)

lemma cookie_pair_dark:
  "cookie_name (theme_cookie ''dark'') = ''theme'' \<and> cookie_value (theme_cookie ''dark'') = ''dark''"
  by (simp add: cookie_name_def cookie_value_def cookie_parts_dark)

lemma cookie_pair_light:
  "cookie_name (theme_cookie ''light'') = ''theme'' \<and>
   cookie_value (theme_cookie ''light'') = ''light''"
  by (simp add: cookie_name_def cookie_value_def cookie_parts_light)

text \<open>
  Claim C1, amended. For every theme preference the listener reads (dark or light, an
  unset or empty attribute being read as dark), two clicks on the toggle leave the
  attribute holding that preference, and the listener reads the same preference again.
  So an attribute that was \<open>dark\<close> or \<open>light\<close> is back at the value it had, and an
  attribute that was unset or empty is \<open>dark\<close>.
\<close>

theorem toggle_twice_restores_preference:
  "current_theme p = theme_name pref \<Longrightarrow>
   data_theme (toggle_click (toggle_click p)) = Some (theme_name pref) \<and>
   current_theme (toggle_click (toggle_click p)) = current_theme p \<and>
   (data_theme p = Some (theme_name pref) \<longrightarrow>
      data_theme (toggle_click (toggle_click p)) = data_theme p)"
  by (cases pref)
     (simp_all add: data_theme_toggle_click next_theme_def current_theme_toggle_click)

text \<open>
  Two clicks from an attribute \<open>light\<close>, which they restore, and from the unset
  attribute of the blank page, which they leave \<open>dark\<close>.
\<close>

theorem toggle_twice_restores_preference_witness:
  "current_theme (blank_page\<lparr>data_theme := Some ''light''\<rparr>) = theme_name Light \<and>
   data_theme (toggle_click (toggle_click (blank_page\<lparr>data_theme := Some ''light''\<rparr>))) =
     Some ''light'' \<and>
   current_theme blank_page = theme_name Dark \<and>
   data_theme (toggle_click (toggle_click blank_page)) = Some ''dark''"
proof -
  have light: "current_theme (blank_page\<lparr>data_theme := Some ''light''\<rparr>) = theme_name Light"
    by (simp add: current_theme_def or_else_def truthy_def)
  have dark: "current_theme blank_page = theme_name Dark"
    by (simp add: current_theme_def or_else_def blank_page_def)
  show ?thesis
    using light dark
      toggle_twice_restores_preference [OF light]
      toggle_twice_restores_preference [OF dark]
    by simp
qed

text \<open>
  The claim as first stated has the attribute return to its original value for every
  initial preference. On the blank page the attribute is unset, the listener reads the
  preference \<open>dark\<close>, and after two clicks the attribute is \<open>dark\<close>, not unset.
\<close>

theorem toggle_twice_unset_counterexample:
  "data_theme blank_page = None \<and>
   current_theme blank_page = ''dark'' \<and>
   data_theme (toggle_click (toggle_click blank_page)) = Some ''dark'' \<and>
   data_theme (toggle_click (toggle_click blank_page)) \<noteq> data_theme blank_page"
  by (simp add: toggle_click_def Let_def next_theme_def current_theme_def or_else_def
      truthy_def blank_page_def)

text \<open>
  Claim C2. A click assigns one string to the cookie, and it is exactly
  \<open>theme=<value>;path=/;max-age=31536000;Secure;SameSite=Lax\<close> for the value the click
  wrote to the attribute; read as a cookie, it carries the pair \<open>theme=<value>\<close> and the
  attributes \<open>path=/\<close>, \<open>max-age=31536000\<close>, \<open>Secure\<close> and \<open>SameSite=Lax\<close>.
\<close>

theorem toggle_cookie_string:
  "data_theme (toggle_click p) = Some (next_theme p) \<and>
   cookie_assigned (toggle_click p) =
     cookie_assigned p @
       [''theme='' @ next_theme p @ '';path=/;max-age=31536000;Secure;SameSite=Lax''] \<and>
   cookie_parts (last (cookie_assigned (toggle_click p))) =
     [''theme='' @ next_theme p, ''path=/'', ''max-age=31536000'', ''Secure'', ''SameSite=Lax'']"
proof -
  have parts: "cookie_parts (theme_cookie (next_theme p)) =
      [''theme='' @ next_theme p, ''path=/'', ''max-age=31536000'', ''Secure'', ''SameSite=Lax'']"
    using next_theme_cases [of p] cookie_parts_dark cookie_parts_light by auto
  have "cookie_assigned (toggle_click p) =
      cookie_assigned p @
        [''theme='' @ next_theme p @ '';path=/;max-age=31536000;Secure;SameSite=Lax'']"
    by (simp add: cookie_assigned_toggle_click theme_cookie_def)
  moreover have "last (cookie_assigned (toggle_click p)) = theme_cookie (next_theme p)"
    by (simp add: cookie_assigned_toggle_click)
  ultimately show ?thesis
    using parts by (simp add: data_theme_toggle_click)
qed

text \<open>
  Claim C6. When the attribute is unset, the listener takes the current preference to
  be \<open>dark\<close>, and the click writes \<open>light\<close> to the attribute and to the cookie.
\<close>

theorem toggle_unset_writes_light:
  "data_theme p = None \<Longrightarrow>
   current_theme p = ''dark'' \<and>
   data_theme (toggle_click p) = Some ''light'' \<and>
   cookie_assigned (toggle_click p) =
     cookie_assigned p @ [''theme=light;path=/;max-age=31536000;Secure;SameSite=Lax''] \<and>
   cookie_value (last (cookie_assigned (toggle_click p))) = ''light''"
proof -
  assume unset: "data_theme p = None"
  have cur: "current_theme p = ''dark''"
    using unset by (simp add: current_theme_def or_else_def)
  then have nxt: "next_theme p = ''light''"
    by (simp add: next_theme_def)
  have "theme_cookie ''light'' = ''theme=light;path=/;max-age=31536000;Secure;SameSite=Lax''"
    by (simp add: theme_cookie_def)
  then show ?thesis
    using cur nxt cookie_pair_light
    by (simp add: data_theme_toggle_click cookie_assigned_toggle_click)
qed

text \<open>The first click on the blank page, whose attribute is unset.\<close>

theorem toggle_unset_writes_light_witness:
  "data_theme blank_page = None \<and>
   data_theme (toggle_click blank_page) = Some ''light'' \<and>
   cookie_assigned (toggle_click blank_page) =
     [''theme=light;path=/;max-age=31536000;Secure;SameSite=Lax'']"
proof -
  have unset: "data_theme blank_page = None"
    by (simp add: blank_page_def)
  have "cookie_assigned blank_page = []"
    by (simp add: blank_page_def)
  then show ?thesis
    using unset toggle_unset_writes_light [OF unset] by simp
qed

text \<open>
  Claim C8, amended. Whatever the attribute held (unset, empty, or any string), a click
  writes \<open>dark\<close> or \<open>light\<close>, and writes the same value to the attribute and as the value
  of the cookie \<open>theme\<close>. An attribute that is unset, empty or \<open>dark\<close> gives \<open>light\<close>;
  every other attribute gives \<open>dark\<close>.
\<close>

theorem toggle_written_value:
  "data_theme (toggle_click p) \<in> {Some ''dark'', Some ''light''} \<and>
   data_theme (toggle_click p) = Some (cookie_value (last (cookie_assigned (toggle_click p)))) \<and>
   cookie_name (last (cookie_assigned (toggle_click p))) = ''theme'' \<and>
   data_theme (toggle_click p) =
     Some (if data_theme p = None \<or> data_theme p = Some [] \<or> data_theme p = Some ''dark''
           then ''light'' else ''dark'')"
proof -
  have pair: "cookie_name (theme_cookie (next_theme p)) = ''theme'' \<and>
      cookie_value (theme_cookie (next_theme p)) = next_theme p"
    using next_theme_cases [of p] cookie_pair_dark cookie_pair_light by auto
  have written: "last (cookie_assigned (toggle_click p)) = theme_cookie (next_theme p)"
    by (simp add: cookie_assigned_toggle_click)
  have "data_theme (toggle_click p) \<in> {Some ''dark'', Some ''light''}"
    using next_theme_cases [of p] by (auto simp: data_theme_toggle_click)
  moreover have "data_theme (toggle_click p) =
      Some (if data_theme p = None \<or> data_theme p = Some [] \<or> data_theme p = Some ''dark''
            then ''light'' else ''dark'')"
    using next_theme_eq [of p] by (simp add: data_theme_toggle_click)
  ultimately show ?thesis
    using pair written by (simp add: data_theme_toggle_click)
qed

text \<open>
  The claim as first stated says every attribute other than the exact string \<open>dark\<close>
  gives \<open>dark\<close>. The empty attribute (\<open>data-theme=""\<close>) is not the string \<open>dark\<close>, is
  falsy, is read as \<open>dark\<close>, and gives \<open>light\<close>.
\<close>

theorem toggle_empty_attribute_counterexample:
  "data_theme (blank_page\<lparr>data_theme := Some []\<rparr>) \<noteq> Some ''dark'' \<and>
   data_theme (toggle_click (blank_page\<lparr>data_theme := Some []\<rparr>)) = Some ''light'' \<and>
   cookie_assigned (toggle_click (blank_page\<lparr>data_theme := Some []\<rparr>)) =
     [''theme=light;path=/;max-age=31536000;Secure;SameSite=Lax'']"
  by (simp add: toggle_click_def Let_def next_theme_def current_theme_def or_else_def
      truthy_def theme_cookie_def blank_page_def)

section \<open>WeatherChip: what loadWeather leaves\<close>

text \<open>No exception leaves \<open>loadWeather\<close>, whatever the fetch does.\<close>

lemma loadWeather_never_rejects: "\<exists>p'. loadWeather ns fetch p = Inr p'"
  by (simp add: loadWeather_def split: sum.splits)

text \<open>On a failed fetch the \<open>try\<close> block returns early with the page as it was, or throws.\<close>

lemma weather_try_failed:
  "fetch_failed (fetch ''/api/weather'') \<Longrightarrow>
   weather_try ns fetch p = Inr p \<or> (\<exists>err. weather_try ns fetch p = Inl err)"
  by (auto simp: fetch_failed_def weather_try_def split: settled.splits if_splits)

text \<open>A status outside 200 to 299 is silent: nothing is logged either.\<close>

lemma weather_bad_status_silent:
  "fetch ''/api/weather'' = Resolved resp \<Longrightarrow> \<not> response_ok resp \<Longrightarrow>
   loadWeather ns fetch p = Inr p"
  by (simp add: loadWeather_def weather_try_def)

text \<open>A rejected request or a body that does not parse is logged once, with its error.\<close>

lemma weather_rejected_logged:
  "fetch ''/api/weather'' = Rejected err \<Longrightarrow>
   loadWeather ns fetch p =
     Inr (p\<lparr>console_errors := console_errors p @ [(''Weather fetch failed:'', err)]\<rparr>)"
  by (simp add: loadWeather_def weather_try_def)

lemma weather_unparsed_logged:
  "fetch ''/api/weather'' = Resolved resp \<Longrightarrow> response_ok resp \<Longrightarrow>
   json_result resp = Rejected err \<Longrightarrow>
   loadWeather ns fetch p =
     Inr (p\<lparr>console_errors := console_errors p @ [(''Weather fetch failed:'', err)]\<rparr>)"
  by (simp add: loadWeather_def weather_try_def)

text \<open>Without the display element a parsed body of any shape changes nothing.\<close>

lemma weather_no_element:
  "fetch ''/api/weather'' = Resolved resp \<Longrightarrow> response_ok resp \<Longrightarrow>
   json_result resp = Resolved data \<Longrightarrow> elements p ''weather-chip'' = None \<Longrightarrow>
   loadWeather ns fetch p = Inr p"
  by (simp add: loadWeather_def weather_try_def)

lemma get_title_no_field:
  "data \<noteq> JNull \<Longrightarrow> \<not> has_title_field data \<Longrightarrow> get_title data = Inr None"
  by (cases data) (auto simp: has_title_field_def get_title_def split: option.splits)

text \<open>
  Claim C4. When the fetch of \<open>/api/weather\<close> fails, by a status outside 200 to 299, a
  rejected request or a body that does not parse, \<open>loadWeather\<close> still completes (\<open>Inr\<close>:
  nothing reaches the caller), the page it leaves differs from the page before in the
  console log at most, and the text of the display element is as it was.
\<close>

theorem weather_failure_caught:
  assumes "fetch_failed (fetch ''/api/weather'')"
  shows "\<exists>p'. loadWeather ns fetch p = Inr p'
           \<and> p'\<lparr>console_errors := console_errors p\<rparr> = p
           \<and> chip_text p' = chip_text p"
  using weather_try_failed [where fetch = fetch and ns = ns and p = p, OF assms]
  by (auto simp: loadWeather_def chip_text_def)

text \<open>
  The three failures on the page with a chip showing \<open>--\<close>: status 503, a rejected
  request, and a body that is not JSON.
\<close>

theorem weather_failure_caught_witness:
  "fetch_failed (serve (Resolved \<lparr>status = 503, json_result = Resolved (JNull :: nat json)\<rparr>)
     ''/api/weather'') \<and>
   fetch_failed (serve (Rejected (TypeError ''Failed to fetch'') :: nat response settled)
     ''/api/weather'') \<and>
   fetch_failed
     (serve (Resolved \<lparr>status = 200, json_result = (Rejected (SyntaxError ''Unexpected token'')
        :: nat json settled)\<rparr>) ''/api/weather'') \<and>
   (\<exists>p'. loadWeather (\<lambda>n::nat. ''0'')
           (serve (Resolved \<lparr>status = 503, json_result = Resolved JNull\<rparr>)) chip_page = Inr p'
         \<and> chip_text p' = Some ''--'') \<and>
   (\<exists>p'. loadWeather (\<lambda>n::nat. ''0'') (serve (Rejected (TypeError ''Failed to fetch'')))
           chip_page = Inr p'
         \<and> chip_text p' = Some ''--'') \<and>
   (\<exists>p'. loadWeather (\<lambda>n::nat. ''0'')
           (serve (Resolved \<lparr>status = 200,
              json_result = Rejected (SyntaxError ''Unexpected token'')\<rparr>))
           chip_page = Inr p'
         \<and> chip_text p' = Some ''--'')"
proof -
  let ?ns = "\<lambda>n::nat. ''0''"
  let ?a = "serve (Resolved \<lparr>status = 503, json_result = Resolved (JNull :: nat json)\<rparr>)"
  let ?b = "serve (Rejected (TypeError ''Failed to fetch'') :: nat response settled)"
  let ?c = "serve (Resolved \<lparr>status = 200,
      json_result = (Rejected (SyntaxError ''Unexpected token'') :: nat json settled)\<rparr>)"
  have a: "fetch_failed (?a ''/api/weather'')"
    by (simp add: serve_def fetch_failed_def response_ok_def)
  have b: "fetch_failed (?b ''/api/weather'')"
    by (simp add: serve_def fetch_failed_def)
  have c: "fetch_failed (?c ''/api/weather'')"
    by (simp add: serve_def fetch_failed_def response_ok_def)
  have chip: "chip_text chip_page = Some ''--''"
    by (simp add: chip_text_def chip_page_def blank_page_def blank_element_def)
  show ?thesis
    using a b c chip
      weather_failure_caught [where fetch = ?a and ns = ?ns and p = chip_page, OF a]
      weather_failure_caught [where fetch = ?b and ns = ?ns and p = chip_page, OF b]
      weather_failure_caught [where fetch = ?c and ns = ?ns and p = chip_page, OF c]
    by auto
qed

text \<open>
  Claim C5. For a response of \<open>/api/weather\<close> with a status from 200 to 299 whose parsed
  body is \<open>{"title":"Sunny"}\<close>, when the display element exists, \<open>loadWeather\<close> sets its
  text to \<open>Sunny\<close> and changes nothing else.
\<close>

theorem weather_sunny:
  assumes "fetch ''/api/weather'' = Resolved resp"
    and "response_ok resp"
    and "json_result resp = Resolved (JObj [(''title'', JStr ''Sunny'')])"
    and "elements p ''weather-chip'' = Some el"
  shows "loadWeather ns fetch p =
           Inr (p\<lparr>elements := (elements p)(''weather-chip'' \<mapsto> el\<lparr>text_content := ''Sunny''\<rparr>)\<rparr>)
         \<and> (case loadWeather ns fetch p of Inl err \<Rightarrow> None | Inr p' \<Rightarrow> chip_text p') =
             Some ''Sunny''"
  using assms
  by (simp add: loadWeather_def weather_try_def get_title_def template_string_def chip_text_def)

text \<open>Status 200 and the body \<open>{"title":"Sunny"}\<close> on the page with a chip showing \<open>--\<close>.\<close>

theorem weather_sunny_witness:
  "response_ok \<lparr>status = 200, json_result = Resolved (JObj [(''title'', JStr ''Sunny'')] :: nat json)\<rparr> \<and>
   elements chip_page ''weather-chip'' = Some blank_element \<and>
   loadWeather (\<lambda>n::nat. ''0'')
     (serve (Resolved \<lparr>status = 200, json_result = Resolved (JObj [(''title'', JStr ''Sunny'')])\<rparr>))
     chip_page =
     Inr (chip_page\<lparr>elements := (elements chip_page)(''weather-chip'' \<mapsto>
            blank_element\<lparr>text_content := ''Sunny''\<rparr>)\<rparr>)"
proof -
  let ?resp = "\<lparr>status = 200, json_result = Resolved (JObj [(''title'', JStr ''Sunny'')] :: nat json)\<rparr>"
  have got: "serve (Resolved ?resp) ''/api/weather'' = Resolved ?resp" by (simp add: serve_def)
  have ok: "response_ok ?resp" by (simp add: response_ok_def)
  have body: "json_result ?resp = Resolved (JObj [(''title'', JStr ''Sunny'')])" by simp
  have el: "elements chip_page ''weather-chip'' = Some blank_element"
    by (simp add: chip_page_def blank_page_def)
  show ?thesis
    using ok el weather_sunny [where fetch = "serve (Resolved ?resp)" and ns = "\<lambda>n::nat. ''0''",
        OF got ok body el] by simp
qed

text \<open>
  Claim C9, amended. For a response of \<open>/api/weather\<close> with a status from 200 to 299
  whose parsed body is not \<open>null\<close> and has no \<open>title\<close> field (an object without that key,
  an array, a string, a number or a boolean), when the display element exists,
  \<open>loadWeather\<close> sets its text to the string \<open>undefined\<close>.
\<close>

theorem weather_missing_title:
  assumes "fetch ''/api/weather'' = Resolved resp"
    and "response_ok resp"
    and "json_result resp = Resolved data"
    and "data \<noteq> JNull"
    and "\<not> has_title_field data"
    and "elements p ''weather-chip'' = Some el"
  shows "loadWeather ns fetch p =
           Inr (p\<lparr>elements := (elements p)(''weather-chip'' \<mapsto>
                  el\<lparr>text_content := ''undefined''\<rparr>)\<rparr>)"
  using assms get_title_no_field [of data]
  by (simp add: loadWeather_def weather_try_def template_string_def)

text \<open>Status 200 and the body \<open>{"temp":"21"}\<close> on the page with a chip showing \<open>--\<close>.\<close>

theorem weather_missing_title_witness:
  "response_ok \<lparr>status = 200, json_result = Resolved (JObj [(''temp'', JStr ''21'')] :: nat json)\<rparr> \<and>
   \<not> has_title_field (JObj [(''temp'', JStr ''21'')] :: nat json) \<and>
   elements chip_page ''weather-chip'' = Some blank_element \<and>
   loadWeather (\<lambda>n::nat. ''0'')
     (serve (Resolved \<lparr>status = 200, json_result = Resolved (JObj [(''temp'', JStr ''21'')])\<rparr>))
     chip_page =
     Inr (chip_page\<lparr>elements := (elements chip_page)(''weather-chip'' \<mapsto>
            blank_element\<lparr>text_content := ''undefined''\<rparr>)\<rparr>)"
proof -
  let ?data = "JObj [(''temp'', JStr ''21'')] :: nat json"
  let ?resp = "\<lparr>status = 200, json_result = Resolved ?data\<rparr>"
  have got: "serve (Resolved ?resp) ''/api/weather'' = Resolved ?resp" by (simp add: serve_def)
  have ok: "response_ok ?resp" by (simp add: response_ok_def)
  have body: "json_result ?resp = Resolved ?data" by simp
  have nonnull: "?data \<noteq> JNull" by simp
  have nofield: "\<not> has_title_field ?data" by (simp add: has_title_field_def)
  have el: "elements chip_page ''weather-chip'' = Some blank_element"
    by (simp add: chip_page_def blank_page_def)
  show ?thesis
    using ok nofield el
      weather_missing_title [where fetch = "serve (Resolved ?resp)" and ns = "\<lambda>n::nat. ''0''",
        OF got ok body nonnull nofield el]
    by simp
qed

text \<open>
  The claim as first stated covers every body with no \<open>title\<close> field. The body \<open>null\<close>
  has none, and for it reading \<open>data.title\<close> throws: the exception is caught and logged,
  and the text stays \<open>--\<close>, not \<open>undefined\<close>.
\<close>

theorem weather_null_body_counterexample:
  "response_ok \<lparr>status = 200, json_result = Resolved (JNull :: nat json)\<rparr> \<and>
   \<not> has_title_field (JNull :: nat json) \<and>
   chip_text chip_page = Some ''--'' \<and>
   loadWeather (\<lambda>n::nat. ''0'')
     (serve (Resolved \<lparr>status = 200, json_result = Resolved JNull\<rparr>)) chip_page =
     Inr (chip_page\<lparr>console_errors :=
            [(''Weather fetch failed:'', TypeError ''Cannot read properties of null'')]\<rparr>) \<and>
   chip_text (chip_page\<lparr>console_errors :=
            [(''Weather fetch failed:'', TypeError ''Cannot read properties of null'')]\<rparr>) =
     Some ''--''"
  by (simp add: response_ok_def has_title_field_def chip_text_def chip_page_def blank_page_def
      blank_element_def loadWeather_def weather_try_def get_title_def serve_def)

section \<open>NewsCardNavigator: what a click opens\<close>

text \<open>The listener adds to the calls of \<open>window.open\<close> and changes nothing else.\<close>

lemma card_listener_frame: "(card_listener c p)\<lparr>window_opened := window_opened p\<rparr> = p"
  by (simp add: card_listener_def split: option.splits)

lemma card_listener_opened:
  "window_opened (card_listener c p) =
     window_opened p @
       (case data_url c of None \<Rightarrow> [] | Some u \<Rightarrow> if u = [] then [] else [(u, ''_blank'')])"
  by (simp add: card_listener_def truthy_def split: option.splits)

text \<open>
  Claim C3, amended. A click on a card whose \<open>data-url\<close> is present and not empty makes
  exactly one call \<open>window.open(url, "_blank")\<close> with that URL; a click on a card with
  no \<open>data-url\<close> makes none. Nothing else of the page changes.
\<close>

theorem card_click_opens_url:
  assumes "i < length (news_cards p)"
  shows "window_opened (card_click i p) =
           window_opened p @
             (case data_url (news_cards p ! i) of
                None \<Rightarrow> []
              | Some u \<Rightarrow> if u = [] then [] else [(u, ''_blank'')])
         \<and> (card_click i p)\<lparr>window_opened := window_opened p\<rparr> = p"
  using assms by (simp add: card_click_def card_listener_opened card_listener_frame)

text \<open>A page of two cards: the first with a URL, the second without the attribute.\<close>

theorem card_click_opens_url_witness:
  "(0::nat) < length (news_cards (blank_page\<lparr>news_cards :=
        [\<lparr>data_url = Some ''https://example.com''\<rparr>, \<lparr>data_url = None\<rparr>]\<rparr>)) \<and>
   (1::nat) < length (news_cards (blank_page\<lparr>news_cards :=
        [\<lparr>data_url = Some ''https://example.com''\<rparr>, \<lparr>data_url = None\<rparr>]\<rparr>)) \<and>
   window_opened (card_click 0 (blank_page\<lparr>news_cards :=
        [\<lparr>data_url = Some ''https://example.com''\<rparr>, \<lparr>data_url = None\<rparr>]\<rparr>)) =
     [(''https://example.com'', ''_blank'')] \<and>
   window_opened (card_click 1 (blank_page\<lparr>news_cards :=
        [\<lparr>data_url = Some ''https://example.com''\<rparr>, \<lparr>data_url = None\<rparr>]\<rparr>)) = []"
proof -
  let ?p = "blank_page\<lparr>news_cards :=
        [\<lparr>data_url = Some ''https://example.com''\<rparr>, \<lparr>data_url = None\<rparr>]\<rparr>"
  have l0: "0 < length (news_cards ?p)" by simp
  have l1: "1 < length (news_cards ?p)" by simp
  have none: "window_opened ?p = []" by (simp add: blank_page_def)
  show ?thesis
    using l0 l1 none card_click_opens_url [OF l0] card_click_opens_url [OF l1] by simp
qed

text \<open>
  The claim as first stated promises one call for every card whose attribute is present.
  A card with \<open>data-url=""\<close> has the attribute, and a click on it opens nothing.
\<close>

theorem card_click_empty_url_counterexample:
  "data_url (news_cards (blank_page\<lparr>news_cards := [\<lparr>data_url = Some []\<rparr>]\<rparr>) ! 0) = Some [] \<and>
   window_opened (card_click 0 (blank_page\<lparr>news_cards := [\<lparr>data_url = Some []\<rparr>]\<rparr>)) = []"
  by (simp add: card_click_def card_listener_def truthy_def blank_page_def)

text \<open>
  Claim C10. A click on a card whose \<open>data-url\<close> is present and empty makes no call
  and leaves the page as it was: the listener tests the value, which is falsy, not the
  presence of the attribute.
\<close>

theorem card_click_empty_url_inert:
  assumes "i < length (news_cards p)"
    and "data_url (news_cards p ! i) = Some []"
  shows "card_click i p = p \<and> window_opened (card_click i p) = window_opened p"
  using assms by (simp add: card_click_def card_listener_def truthy_def)

text \<open>A page whose only card has an empty \<open>data-url\<close>.\<close>

theorem card_click_empty_url_inert_witness:
  "(0::nat) < length (news_cards (blank_page\<lparr>news_cards := [\<lparr>data_url = Some []\<rparr>]\<rparr>)) \<and>
   card_click 0 (blank_page\<lparr>news_cards := [\<lparr>data_url = Some []\<rparr>]\<rparr>) =
     blank_page\<lparr>news_cards := [\<lparr>data_url = Some []\<rparr>]\<rparr>"
proof -
  let ?p = "blank_page\<lparr>news_cards := [\<lparr>data_url = Some []\<rparr>]\<rparr>"
  have l0: "0 < length (news_cards ?p)" by simp
  have url: "data_url (news_cards ?p ! 0) = Some []" by simp
  show ?thesis using l0 card_click_empty_url_inert [OF l0 url] by simp
qed

section \<open>CursorEffect: where the element goes\<close>

text \<open>
  \<open>int_str\<close> and \<open>read_decimal\<close> are inverse to each other: the numeral \<open>int_str i\<close>
  reads as \<open>i\<close>, and it is the only string that does.
\<close>

lemma below_ten:
  "k < (10::nat) \<Longrightarrow>
   k = 0 \<or> k = 1 \<or> k = 2 \<or> k = 3 \<or> k = 4 \<or> k = 5 \<or> k = 6 \<or> k = 7 \<or> k = 8 \<or> k = 9"
  by arith

lemma digit_value_digit_char: "digit_value (digit_char d) = Some (d mod 10)"
proof -
  consider "d mod 10 = 0" | "d mod 10 = 1" | "d mod 10 = 2" | "d mod 10 = 3"
    | "d mod 10 = 4" | "d mod 10 = 5" | "d mod 10 = 6" | "d mod 10 = 7" | "d mod 10 = 8"
    | "d mod 10 = 9" using below_ten [of "d mod 10"] by auto
  then show ?thesis
    by cases (simp_all add: digit_char_def digit_value_def)
qed

lemma digit_char_zero: "digit_char d = CHR ''0'' \<longleftrightarrow> d mod 10 = 0"
proof -
  consider "d mod 10 = 0" | "d mod 10 = 1" | "d mod 10 = 2" | "d mod 10 = 3"
    | "d mod 10 = 4" | "d mod 10 = 5" | "d mod 10 = 6" | "d mod 10 = 7" | "d mod 10 = 8"
    | "d mod 10 = 9" using below_ten [of "d mod 10"] by auto
  then show ?thesis
    by cases (simp_all add: digit_char_def)
qed

lemma digit_char_not_minus: "digit_char d \<noteq> CHR ''-''"
proof -
  consider "d mod 10 = 0" | "d mod 10 = 1" | "d mod 10 = 2" | "d mod 10 = 3"
    | "d mod 10 = 4" | "d mod 10 = 5" | "d mod 10 = 6" | "d mod 10 = 7" | "d mod 10 = 8"
    | "d mod 10 = 9" using below_ten [of "d mod 10"] by auto
  then show ?thesis
    by cases (simp_all add: digit_char_def)
qed

lemma digits_value_snoc:
  "digits_value acc (cs @ [c]) =
     (case digits_value acc cs of
        None \<Rightarrow> None
      | Some v \<Rightarrow> (case digit_value c of None \<Rightarrow> None | Some d \<Rightarrow> Some (10 * v + d)))"
  by (induction cs arbitrary: acc) (auto split: option.splits)

lemma digits_value_nat_str: "digits_value 0 (nat_str n) = Some n"
proof (induction n rule: nat_str.induct)
  case (1 n)
  show ?case
  proof (cases "n < 10")
    case True
    then show ?thesis
      by (simp add: nat_str.simps [of n] digit_value_digit_char)
  next
    case False
    then have "digits_value 0 (nat_str (n div 10)) = Some (n div 10)"
      using "1" by simp
    then show ?thesis
      using False by (simp add: nat_str.simps [of n] digits_value_snoc digit_value_digit_char)
  qed
qed

lemma nat_str_not_Nil: "nat_str n \<noteq> []"
  by (subst nat_str.simps) simp

lemma hd_nat_str_zero: "hd (nat_str n) = CHR ''0'' \<longleftrightarrow> n = 0"
proof (induction n rule: nat_str.induct)
  case (1 n)
  show ?case
  proof (cases "n < 10")
    case True
    then show ?thesis
      by (simp add: nat_str.simps [of n] digit_char_zero)
  next
    case False
    then have "hd (nat_str (n div 10)) = CHR ''0'' \<longleftrightarrow> n div 10 = 0"
      using "1" by simp
    then show ?thesis
      using False by (simp add: nat_str.simps [of n] nat_str_not_Nil)
  qed
qed

lemma hd_nat_str_not_minus: "hd (nat_str n) \<noteq> CHR ''-''"
proof (induction n rule: nat_str.induct)
  case (1 n)
  show ?case
  proof (cases "n < 10")
    case True
    then show ?thesis
      by (simp add: nat_str.simps [of n] digit_char_not_minus)
  next
    case False
    then show ?thesis
      using "1" by (simp add: nat_str.simps [of n] nat_str_not_Nil)
  qed
qed

lemma read_nat_nat_str: "read_nat (nat_str n) = Some n"
proof (cases "nat_str n")
  case Nil
  then show ?thesis using nat_str_not_Nil by simp
next
  case (Cons c cs)
  have "\<not> (c = CHR ''0'' \<and> cs \<noteq> [])"
  proof
    assume a: "c = CHR ''0'' \<and> cs \<noteq> []"
    then have "n = 0" using hd_nat_str_zero [of n] Cons by simp
    then have "nat_str n = [digit_char 0]" by (simp add: nat_str.simps [of 0])
    then show False using a Cons by simp
  qed
  then show ?thesis
    using Cons digits_value_nat_str [of n] by (simp add: read_nat_def)
qed

lemma read_decimal_int_str: "read_decimal (int_str i) = Some i"
proof (cases "i < 0")
  case True
  then have "read_nat (nat_str (nat (- i))) = Some (nat (- i))" "nat (- i) \<noteq> 0"
    by (simp_all add: read_nat_nat_str)
  then show ?thesis
    using True by (simp add: int_str_def read_decimal_def)
next
  case False
  obtain c cs where s: "nat_str (nat i) = c # cs"
    using nat_str_not_Nil [of "nat i"] by (cases "nat_str (nat i)") auto
  then have "c \<noteq> CHR ''-''" using hd_nat_str_not_minus [of "nat i"] by simp
  then show ?thesis
    using False s read_nat_nat_str [of "nat i"] by (simp add: int_str_def read_decimal_def)
qed

lemma digit_value_Some:
  assumes "digit_value c = Some d"
  shows "d < 10 \<and> digit_char d = c"
proof -
  have k: "48 \<le> (of_char c :: nat)" "(of_char c :: nat) \<le> 57" "d = of_char c - 48"
    using assms by (auto simp: digit_value_def Let_def split: if_splits)
  then have d: "d < 10" by simp
  have "(of_char (digit_char d) :: nat) = 48 + d"
    using below_ten [OF d] by (auto simp: digit_char_def)
  then have "(of_char (digit_char d) :: nat) = of_char c"
    using k by simp
  then have "digit_char d = c"
    by (simp only: of_char_eq_iff)
  then show ?thesis
    using d by simp
qed

lemma digits_value_unique:
  "s \<noteq> [] \<Longrightarrow> \<not> (hd s = CHR ''0'' \<and> tl s \<noteq> []) \<Longrightarrow> digits_value 0 s = Some n \<Longrightarrow>
   s = nat_str n"
proof (induction s arbitrary: n rule: rev_induct)
  case Nil
  then show ?case by simp
next
  case (snoc c xs)
  show ?case
  proof (cases "xs = []")
    case True
    then have "digit_value c = Some n"
      using snoc.prems by (simp split: option.splits)
    then have "n < 10" "digit_char n = c"
      using digit_value_Some by auto
    then show ?thesis
      using True by (simp add: nat_str.simps [of n])
  next
    case False
    then have hd: "hd xs \<noteq> CHR ''0''"
      using snoc.prems(2) by (cases xs) auto
    obtain m d where m: "digits_value 0 xs = Some m" and d: "digit_value c = Some d"
      and n: "n = 10 * m + d"
      using snoc.prems(3) by (auto simp: digits_value_snoc split: option.splits)
    have xs: "xs = nat_str m"
      using snoc.IH [OF False _ m] hd by simp
    have "m \<noteq> 0"
      using hd hd_nat_str_zero [of m] xs by auto
    have dd: "d < 10" "digit_char d = c"
      using digit_value_Some [OF d] by auto
    have "n div 10 = m" "n mod 10 = d" "\<not> n < 10"
      using n dd \<open>m \<noteq> 0\<close> by auto
    then have "nat_str n = nat_str m @ [digit_char n]"
      by (simp add: nat_str.simps [of n])
    moreover have "digit_char n = digit_char d"
      using \<open>n mod 10 = d\<close> dd by (simp add: digit_char_def)
    ultimately show ?thesis
      using xs dd by simp
  qed
qed

lemma read_nat_unique: "read_nat s = Some n \<Longrightarrow> s = nat_str n"
proof -
  assume r: "read_nat s = Some n"
  then obtain c cs where s: "s = c # cs"
    by (cases s) (auto simp: read_nat_def)
  have "\<not> (c = CHR ''0'' \<and> cs \<noteq> [])" "digits_value 0 s = Some n"
    using r s by (auto simp: read_nat_def split: if_splits)
  then show ?thesis
    using digits_value_unique [of s n] s by simp
qed

lemma read_decimal_unique: "read_decimal s = Some i \<Longrightarrow> s = int_str i"
proof -
  assume r: "read_decimal s = Some i"
  then obtain c cs where s: "s = c # cs"
    by (cases s) (auto simp: read_decimal_def)
  show ?thesis
  proof (cases "c = CHR ''-''")
    case True
    then obtain n where n: "read_nat cs = Some n" "n \<noteq> 0" "i = - int n"
      using r s by (auto simp: read_decimal_def split: option.splits if_splits)
    then have "cs = nat_str n" using read_nat_unique by simp
    then show ?thesis
      using n True s by (simp add: int_str_def)
  next
    case False
    then obtain n where n: "read_nat s = Some n" "i = int n"
      using r s by (auto simp: read_decimal_def)
    then have "s = nat_str n" using read_nat_unique by simp
    then show ?thesis
      using n by (simp add: int_str_def)
  qed
qed

lemma read_decimal_iff: "read_decimal s = Some i \<longleftrightarrow> s = int_str i"
  using read_decimal_unique read_decimal_int_str by blast

lemma read_px_int_str: "read_px (int_str i @ ''px'') = Some i"
  by (simp add: read_px_def read_decimal_int_str)

lemma read_px_unique:
  assumes "read_px s = Some i"
  shows "s = int_str i @ ''px''"
proof -
  have tail: "drop (length s - 2) s = ''px''"
    and "read_decimal (take (length s - 2) s) = Some i"
    using assms by (auto simp: read_px_def split: if_splits)
  then have "take (length s - 2) s = int_str i"
    using read_decimal_unique by simp
  then show ?thesis
    using tail append_take_drop_id [of "length s - 2" s] by simp
qed

lemma number_str_120: "number_str ns 120 = ''120''"
  by (simp add: number_str_def safe_integer_def int_str_def nat_str.simps digit_char_def)

lemma number_str_340: "number_str ns 340 = ''340''"
  by (simp add: number_str_def safe_integer_def int_str_def nat_str.simps digit_char_def)

text \<open>A coordinate of a half pixel is no whole number: its rendering is that of \<open>ns\<close>.\<close>

lemma number_str_half: "number_str ns (241 / 2) = ns (241 / 2)"
proof -
  have "\<lfloor>241 / 2 :: rat\<rfloor> = 120" by (simp add: floor_eq_iff)
  then show ?thesis by (simp add: number_str_def safe_integer_def)
qed

lemma cursor_mousemove_absent:
  "elements p ''cursor-effect'' = None \<Longrightarrow> cursor_mousemove ns e p = p"
  by (simp add: cursor_mousemove_def)

text \<open>
  Claim C7. On a pointer move to page coordinates \<open>(x, y)\<close>: without the element
  \<open>cursor-effect\<close> nothing changes. With it, the left offset becomes \<open><x>px\<close> and the top
  offset \<open><y>px\<close>, the rest of the page staying as it was, where \<open><x>\<close> is the string a
  template literal makes of \<open>x\<close>: for a whole \<open>x\<close> of magnitude up to \<open>2^53\<close> the offset
  reads back as \<open>x\<close> pixels, and for every other \<open>x\<close> it is Number::toString of \<open>x\<close>
  followed by \<open>px\<close>. At \<open>(120, 340)\<close> the offsets are \<open>120px\<close> and \<open>340px\<close>.
\<close>

theorem cursor_follows_pointer:
  "(elements p ''cursor-effect'' = None \<longrightarrow> cursor_mousemove ns e p = p) \<and>
   (elements p ''cursor-effect'' \<noteq> None \<longrightarrow>
      cursor_left (cursor_mousemove ns e p) = Some (number_str ns (pageX e) @ ''px'') \<and>
      cursor_top (cursor_mousemove ns e p) = Some (number_str ns (pageY e) @ ''px'') \<and>
      (cursor_mousemove ns e p)\<lparr>elements := elements p\<rparr> = p \<and>
      (\<forall>k. k \<noteq> ''cursor-effect'' \<longrightarrow> elements (cursor_mousemove ns e p) k = elements p k)) \<and>
   (elements p ''cursor-effect'' \<noteq> None \<and> safe_integer (pageX e) \<longrightarrow>
      Option.bind (cursor_left (cursor_mousemove ns e p)) read_px = Some \<lfloor>pageX e\<rfloor>) \<and>
   (elements p ''cursor-effect'' \<noteq> None \<and> safe_integer (pageY e) \<longrightarrow>
      Option.bind (cursor_top (cursor_mousemove ns e p)) read_px = Some \<lfloor>pageY e\<rfloor>) \<and>
   (elements p ''cursor-effect'' \<noteq> None \<and> \<not> safe_integer (pageX e) \<longrightarrow>
      cursor_left (cursor_mousemove ns e p) = Some (ns (pageX e) @ ''px'')) \<and>
   (elements p ''cursor-effect'' \<noteq> None \<and> \<not> safe_integer (pageY e) \<longrightarrow>
      cursor_top (cursor_mousemove ns e p) = Some (ns (pageY e) @ ''px'')) \<and>
   (elements p ''cursor-effect'' \<noteq> None \<and> pageX e = 120 \<and> pageY e = 340 \<longrightarrow>
      cursor_left (cursor_mousemove ns e p) = Some ''120px'' \<and>
      cursor_top (cursor_mousemove ns e p) = Some ''340px'')"
proof -
  have absent: "elements p ''cursor-effect'' = None \<longrightarrow> cursor_mousemove ns e p = p"
    by (simp add: cursor_mousemove_def)
  have present: "elements p ''cursor-effect'' \<noteq> None \<longrightarrow>
      cursor_left (cursor_mousemove ns e p) = Some (number_str ns (pageX e) @ ''px'') \<and>
      cursor_top (cursor_mousemove ns e p) = Some (number_str ns (pageY e) @ ''px'') \<and>
      (cursor_mousemove ns e p)\<lparr>elements := elements p\<rparr> = p \<and>
      (\<forall>k. k \<noteq> ''cursor-effect'' \<longrightarrow> elements (cursor_mousemove ns e p) k = elements p k)"
    by (auto simp: cursor_mousemove_def cursor_left_def cursor_top_def)
  have whole: "safe_integer x \<longrightarrow> read_px (number_str ns x @ ''px'') = Some \<lfloor>x\<rfloor>" for x
    by (simp add: number_str_def read_px_int_str)
  have other: "\<not> safe_integer x \<longrightarrow> number_str ns x = ns x" for x
    by (simp add: number_str_def)
  show ?thesis
    using absent present whole [of "pageX e"] whole [of "pageY e"]
      other [of "pageX e"] other [of "pageY e"]
      number_str_120 [of ns] number_str_340 [of ns]
    by auto
qed

text \<open>
  A move to \<open>(120, 340)\<close> on a page with the element and on one without, and a move to
  \<open>(120.5, 340)\<close> where Number::toString gives \<open>120.5\<close>.
\<close>

theorem cursor_follows_pointer_witness:
  "elements cursor_page ''cursor-effect'' \<noteq> None \<and>
   safe_integer 120 \<and> safe_integer 340 \<and> \<not> safe_integer (241 / 2) \<and>
   cursor_left (cursor_mousemove (\<lambda>x. ''120.5'') \<lparr>pageX = 120, pageY = 340\<rparr> cursor_page) =
     Some ''120px'' \<and>
   cursor_top (cursor_mousemove (\<lambda>x. ''120.5'') \<lparr>pageX = 120, pageY = 340\<rparr> cursor_page) =
     Some ''340px'' \<and>
   cursor_left (cursor_mousemove (\<lambda>x. ''120.5'') \<lparr>pageX = 241 / 2, pageY = 340\<rparr> cursor_page) =
     Some ''120.5px'' \<and>
   elements blank_page ''cursor-effect'' = None \<and>
   cursor_mousemove (\<lambda>x. ''120.5'') \<lparr>pageX = 120, pageY = 340\<rparr> blank_page = blank_page"
proof -
  let ?ns = "\<lambda>x::rat. ''120.5''"
  have present: "elements cursor_page ''cursor-effect'' \<noteq> None"
    by (simp add: cursor_page_def blank_page_def)
  have absent: "elements blank_page ''cursor-effect'' = None"
    by (simp add: blank_page_def)
  have whole: "safe_integer 120" "safe_integer 340"
    by (simp_all add: safe_integer_def)
  have "\<lfloor>241 / 2 :: rat\<rfloor> = 120" by (simp add: floor_eq_iff)
  then have half: "\<not> safe_integer (241 / 2)" by (simp add: safe_integer_def)
  show ?thesis
    using present absent whole half
      cursor_follows_pointer [of cursor_page ?ns "\<lparr>pageX = 120, pageY = 340\<rparr>"]
      cursor_follows_pointer [of cursor_page ?ns "\<lparr>pageX = 241 / 2, pageY = 340\<rparr>"]
      cursor_follows_pointer [of blank_page ?ns "\<lparr>pageX = 120, pageY = 340\<rparr>"]
    by (simp add: number_str_120 number_str_340 number_str_half)
qed

end
